theory Spec2Isabelle
  imports Main "HOL-Library.AList"
begin

section \<open>JavaScript values\<close>

text \<open>
  The provider of \<^verbatim>\<open>src/index.js\<close> handles untyped JavaScript values: identifiers,
  parameters, results and errors. They are modelled as JSON-like data.
  \<^item> \<open>JNum n\<close> is the number \<open>n\<close>, an integer in the safe range (below \<open>2 ^ 53\<close> in
    magnitude). Fractions, \<open>NaN\<close>, infinities and \<open>-0\<close> are not modelled.
  \<^item> \<open>JObj ps\<close> is a plain data object with the own properties \<open>ps\<close> (the first binding
    of a key counts). Objects carry no functions, accessors or symbols, and no own
    \<open>toString\<close> or \<open>valueOf\<close> property.
  \<^item> \<open>JError m\<close> is an instance of \<open>Error\<close> with message \<open>m\<close>.
\<close>

datatype jsval =
    JUndefined
  | JNull
  | JBool bool
  | JNum int
  | JStr string
  | JArr "jsval list"
  | JObj "(string \<times> jsval) list"
  | JError string

text \<open>A thrown exception. Every exception the provider's own code can raise is a TypeError.\<close>

datatype exn = TypeError string

text \<open>Truthiness, as tested by \<open>!x\<close>, \<open>!!x\<close>, \<open>x || y\<close>, \<open>x && y\<close> and \<open>if (x)\<close>.\<close>

fun truthy :: "jsval \<Rightarrow> bool" where
  "truthy JUndefined = False"
| "truthy JNull = False"
| "truthy (JBool b) = b"
| "truthy (JNum n) = (n \<noteq> 0)"
| "truthy (JStr s) = (s \<noteq> [])"
| "truthy (JArr xs) = True"
| "truthy (JObj ps) = True"
| "truthy (JError m) = True"

fun typeof :: "jsval \<Rightarrow> string" where
  "typeof JUndefined = ''undefined''"
| "typeof JNull = ''object''"
| "typeof (JBool b) = ''boolean''"
| "typeof (JNum n) = ''number''"
| "typeof (JStr s) = ''string''"
| "typeof (JArr xs) = ''object''"
| "typeof (JObj ps) = ''object''"
| "typeof (JError m) = ''object''"

text \<open>\<open>x instanceof Array\<close> and \<open>Array.isArray(x)\<close>; \<open>x instanceof Error\<close>.\<close>

fun instanceof_Array :: "jsval \<Rightarrow> bool" where
  "instanceof_Array (JArr xs) = True"
| "instanceof_Array v = False"

fun instanceof_Error :: "jsval \<Rightarrow> bool" where
  "instanceof_Error (JError m) = True"
| "instanceof_Error v = False"

text \<open>
  Reading a property \<open>v.name\<close>. Reading from \<open>null\<close> or \<open>undefined\<close> throws. The names
  read by the provider (\<open>chainId\<close>, \<open>address\<close>, \<open>rpcUrl\<close>, \<open>method\<close>, \<open>params\<close>,
  \<open>id\<close>, \<open>jsonrpc\<close>, \<open>result\<close>) are members of no built-in prototype, so on a
  primitive, an array or an error the result is \<open>undefined\<close>.
\<close>

fun get_prop :: "jsval \<Rightarrow> string \<Rightarrow> exn + jsval" where
  "get_prop JUndefined name = Inl (TypeError (''Cannot read properties of undefined, reading '' @ name))"
| "get_prop JNull name = Inl (TypeError (''Cannot read properties of null, reading '' @ name))"
| "get_prop (JObj ps) name = Inr (case map_of ps name of Some v \<Rightarrow> v | None \<Rightarrow> JUndefined)"
| "get_prop v name = Inr JUndefined"

text \<open>
  \<open>v[i]\<close> on an array: \<open>undefined\<close> out of range. The provider indexes
  \<open>payload.params\<close> only, which \<open>send\<close> has checked to be an array.
\<close>

fun index :: "jsval \<Rightarrow> nat \<Rightarrow> jsval" where
  "index (JArr xs) i = (if i < length xs then xs ! i else JUndefined)"
| "index v i = JUndefined"

subsection \<open>Numbers and strings\<close>

definition digit_char :: "nat \<Rightarrow> char" where
  "digit_char d = ''0123456789abcdef'' ! d"

text \<open>The digits of \<open>n\<close> in radix \<open>b\<close>, most significant first.\<close>

function radix_digits :: "nat \<Rightarrow> nat \<Rightarrow> string" where
  "radix_digits b n =
     (if b < 2 \<or> n < b then [digit_char n]
      else radix_digits b (n div b) @ [digit_char (n mod b)])"
  by pat_completeness auto
termination
  by (relation "measure snd") auto

declare radix_digits.simps [simp del]

text \<open>
  \<open>Number.prototype.toString(radix)\<close> on a safe integer: the exact digits. From
  \<open>2 ^ 53\<close> on JavaScript prints the digits of the nearest double, and from \<open>10 ^ 21\<close>
  on an exponent, which this function does not; a statement about the digits of a number
  carries the bound \<open>safe_integer\<close>.
\<close>

definition number_toString :: "nat \<Rightarrow> int \<Rightarrow> string" where
  "number_toString b n =
     (if n < 0 then CHR ''-'' # radix_digits b (nat (- n)) else radix_digits b (nat n))"

fun join :: "string \<Rightarrow> string list \<Rightarrow> string" where
  "join sep [] = []"
| "join sep [x] = x"
| "join sep (x # y # ys) = x @ sep @ join sep (y # ys)"

text \<open>
  The abstract operation ToString, used by template literals, by \<open>new Error(x)\<close> and
  for property keys. An array prints its elements separated by commas, with \<open>null\<close> and
  \<open>undefined\<close> elements empty.
\<close>

fun ToString :: "jsval \<Rightarrow> string" where
  "ToString JUndefined = ''undefined''"
| "ToString JNull = ''null''"
| "ToString (JBool b) = (if b then ''true'' else ''false'')"
| "ToString (JNum n) = number_toString 10 n"
| "ToString (JStr s) = s"
| "ToString (JArr xs) =
     join '','' (map (\<lambda>x. if x = JUndefined \<or> x = JNull then [] else ToString x) xs)"
| "ToString (JObj ps) = ''[object Object]''"
| "ToString (JError m) = (if m = [] then ''Error'' else ''Error: '' @ m)"

text \<open>
  The method call \<open>v.toString(radix)\<close>: it throws on \<open>null\<close> and \<open>undefined\<close>, uses
  the radix on a number and ignores it on every other value.
\<close>

fun toString :: "jsval \<Rightarrow> nat \<Rightarrow> exn + string" where
  "toString JUndefined radix = Inl (TypeError ''Cannot read properties of undefined, reading toString'')"
| "toString JNull radix = Inl (TypeError ''Cannot read properties of null, reading toString'')"
| "toString (JNum n) radix = Inr (number_toString radix n)"
| "toString v radix = Inr (ToString v)"

text \<open>\<open>String.prototype.toLowerCase\<close>, on the ASCII letters.\<close>

definition char_lower :: "char \<Rightarrow> char" where
  "char_lower c =
     (let n = of_char c :: nat in if 65 \<le> n \<and> n \<le> 90 then char_of (n + 32) else c)"

definition toLowerCase :: "string \<Rightarrow> string" where
  "toLowerCase s = map char_lower s"

text \<open>\<open>new Error(x)\<close>: the message is ToString of \<open>x\<close>, and empty when \<open>x\<close> is \<open>undefined\<close>.\<close>

definition new_Error :: "jsval \<Rightarrow> jsval" where
  "new_Error x = JError (if x = JUndefined then [] else ToString x)"

section \<open>The provider\<close>

text \<open>
  The collaborators \<open>RPCServer\<close> (\<^verbatim>\<open>./rpc\<close>) and \<open>FilterMgr\<close> (\<^verbatim>\<open>./filter\<close>) are
  external. An instance is identified by what it was constructed from, and a call to one
  is recorded as an outstanding request.
\<close>

datatype rpc_server = RPCServer jsval

datatype filter_mgr = FilterMgr rpc_server

datatype request =
    RpcCall rpc_server jsval
  | NewFilter filter_mgr jsval
  | NewBlockFilter filter_mgr
  | NewPendingTransactionFilter filter_mgr
  | UninstallFilter filter_mgr jsval
  | GetFilterChanges filter_mgr jsval
  | GetFilterLogs filter_mgr jsval

text \<open>
  A promise created by \<open>send\<close> is a handle into the promise store \<open>settled\<close>. The pair
  \<open>{resolve, reject}\<close> kept in the pending table is the pair of settling functions of
  one promise, so a table entry is the handle of that promise.
\<close>

datatype pstate = Pending | Fulfilled jsval | Rejected jsval

text \<open>
  The fields of the class, with the source's leading underscore written \<open>priv_\<close>. The
  table \<open>_promises\<close> is a plain object: \<open>priv_promises\<close> holds its own properties and
  \<open>promises_proto\<close> the entry installed as its prototype by an assignment to the key
  \<open>__proto__\<close>. The remaining fields record the effects on the environment: the promise
  store, the events emitted, the messages posted to the host, the requests made to the
  collaborators, and the callbacks that \<open>sendAsync\<close> attached to promises.
\<close>

record provider =
  isTrust :: bool
  chainId :: jsval
  address :: string
  ready :: bool
  priv_rpc :: rpc_server
  priv_filterMgr :: filter_mgr
  priv_promises :: "(string \<times> nat) list"
  promises_proto :: "nat option"
  settled :: "pstate list"
  emitted :: "(string \<times> jsval list) list"
  posted :: "(string \<times> jsval) list"
  requests :: "(request \<times> jsval) list"
  attached :: "(nat \<times> nat) list"

text \<open>A statement returns normally or throws; either way the state it reached is kept.\<close>

type_synonym 'a outcome = "(exn + 'a) \<times> provider"

subsection \<open>The pending table as a JavaScript object\<close>

text \<open>The property names every plain object inherits from \<open>Object.prototype\<close>.\<close>

definition object_prototype_keys :: "string list" where
  "object_prototype_keys =
     [''constructor'', ''__defineGetter__'', ''__defineSetter__'', ''hasOwnProperty'',
      ''__lookupGetter__'', ''__lookupSetter__'', ''isPrototypeOf'', ''propertyIsEnumerable'',
      ''toString'', ''valueOf'', ''__proto__'', ''toLocaleString'']"

text \<open>
  What \<open>this._promises[id]\<close> evaluates to: an entry, an inherited member (an object or
  function with no \<open>resolve\<close> or \<open>reject\<close> property of its own), or \<open>undefined\<close>.
\<close>

datatype slot = Entry nat | Inherited | Missing

definition lookup :: "provider \<Rightarrow> string \<Rightarrow> slot" where
  "lookup s k =
     (if k = ''__proto__'' then
        (case promises_proto s of Some p \<Rightarrow> Entry p | None \<Rightarrow> Inherited)
      else
        (case map_of (priv_promises s) k of
           Some p \<Rightarrow> Entry p
         | None \<Rightarrow>
             if k \<in> set object_prototype_keys
                \<or> (promises_proto s \<noteq> None \<and> (k = ''resolve'' \<or> k = ''reject''))
             then Inherited else Missing))"

text \<open>\<open>this._promises[id] = { resolve, reject }\<close> for the promise \<open>p\<close>.\<close>

definition assign :: "provider \<Rightarrow> string \<Rightarrow> nat \<Rightarrow> provider" where
  "assign s k p =
     (if k = ''__proto__'' then s\<lparr>promises_proto := Some p\<rparr>
      else s\<lparr>priv_promises := AList.update k p (priv_promises s)\<rparr>)"

text \<open>\<open>delete this._promises[id]\<close>: it removes an own property only.\<close>

definition delete_key :: "provider \<Rightarrow> string \<Rightarrow> provider" where
  "delete_key s k = s\<lparr>priv_promises := AList.delete k (priv_promises s)\<rparr>"

text \<open>
  Calling the \<open>resolve\<close> or \<open>reject\<close> function of the promise \<open>p\<close>: it settles the
  promise when it is pending and does nothing otherwise.
\<close>

definition settle :: "nat \<Rightarrow> pstate \<Rightarrow> pstate list \<Rightarrow> pstate list" where
  "settle p r ps = (if p < length ps \<and> ps ! p = Pending then ps[p := r] else ps)"

subsection \<open>Events\<close>

definition emit :: "provider \<Rightarrow> string \<Rightarrow> jsval list \<Rightarrow> provider" where
  "emit s name args = s\<lparr>emitted := emitted s @ [(name, args)]\<rparr>"

definition priv_emitConnect :: "provider \<Rightarrow> provider" where
  "priv_emitConnect s = emit s ''connect'' []"

definition priv_connect :: "provider \<Rightarrow> provider" where
  "priv_connect s = priv_emitConnect s"

definition priv_emitNetworkChanged :: "provider \<Rightarrow> jsval \<Rightarrow> provider" where
  "priv_emitNetworkChanged s networkId = emit s ''networkChanged'' [networkId]"

definition priv_emitAccountsChanged :: "provider \<Rightarrow> jsval \<Rightarrow> provider" where
  "priv_emitAccountsChanged s accounts = emit s ''accountsChanged'' [accounts]"

subsection \<open>Configuration\<close>

text \<open>\<open>(a || "").toLowerCase()\<close>: a truthy value that is no string has no such method.\<close>

definition lowered :: "jsval \<Rightarrow> exn + string" where
  "lowered a =
     (if \<not> truthy a then Inr (toLowerCase [])
      else case a of
             JStr str \<Rightarrow> Inr (toLowerCase str)
           | _ \<Rightarrow> Inl (TypeError ''toLowerCase is not a function''))"

definition constructor :: "jsval \<Rightarrow> exn + provider" where
  "constructor config =
     (case get_prop config ''chainId'' of Inl e \<Rightarrow> Inl e | Inr cid \<Rightarrow>
     (case get_prop config ''address'' of Inl e \<Rightarrow> Inl e | Inr a \<Rightarrow>
     (case lowered a of Inl e \<Rightarrow> Inl e | Inr l \<Rightarrow>
     (case get_prop config ''rpcUrl'' of Inl e \<Rightarrow> Inl e | Inr url \<Rightarrow>
        Inr (priv_connect
          \<lparr> isTrust = True, chainId = cid, address = l, ready = truthy a,
            priv_rpc = RPCServer url, priv_filterMgr = FilterMgr (RPCServer url),
            priv_promises = [], promises_proto = None,
            settled = [], emitted = [], posted = [], requests = [], attached = [] \<rparr>)))))"

definition setAddress :: "provider \<Rightarrow> jsval \<Rightarrow> unit outcome" where
  "setAddress s a =
     (case lowered a of
        Inl e \<Rightarrow> (Inl e, s)
      | Inr l \<Rightarrow>
          (let s1 = s\<lparr>address := l\<rparr>;
               s2 = s1\<lparr>ready := truthy a\<rparr>
           in (Inr (), priv_emitAccountsChanged s2 (JArr [JStr (address s2)]))))"

definition setConfig :: "provider \<Rightarrow> jsval \<Rightarrow> unit outcome" where
  "setConfig s config =
     (case get_prop config ''address'' of Inl e \<Rightarrow> (Inl e, s) | Inr a \<Rightarrow>
     (case setAddress s a of (Inl e, s1) \<Rightarrow> (Inl e, s1) | (Inr u, s1) \<Rightarrow>
     (case get_prop config ''chainId'' of Inl e \<Rightarrow> (Inl e, s1) | Inr cid \<Rightarrow>
     (case get_prop config ''rpcUrl'' of Inl e \<Rightarrow> (Inl e, s1\<lparr>chainId := cid\<rparr>) | Inr url \<Rightarrow>
        (let s2 = s1\<lparr>chainId := cid\<rparr>;
             s3 = s2\<lparr>priv_rpc := RPCServer url\<rparr>;
             s4 = s3\<lparr>priv_filterMgr := FilterMgr (priv_rpc s3)\<rparr>
         in (Inr (), priv_emitNetworkChanged s4 (chainId s4)))))))"

subsection \<open>Settling a pending call\<close>

text \<open>
  Lines 159 to 163 of \<open>_resolve\<close>: the value stored as \<open>data.result\<close>. The test
  \<open>typeof result === "object" && result.jsonrpc && result.result\<close> reads a property of
  \<open>result\<close> as soon as its type is \<open>object\<close>, which \<open>null\<close> has.
\<close>

definition data_result :: "jsval \<Rightarrow> exn + jsval" where
  "data_result result =
     (if typeof result = ''object'' then
        (case get_prop result ''jsonrpc'' of Inl e \<Rightarrow> Inl e | Inr j \<Rightarrow>
           if truthy j then
             (case get_prop result ''result'' of Inl e \<Rightarrow> Inl e | Inr r \<Rightarrow>
                if truthy r then Inr r else Inr result)
           else Inr result)
      else Inr result)"

text \<open>
  \<open>let { resolve } = this._promises[id]\<close> throws when the table holds nothing under the
  key; on an inherited member it binds \<open>undefined\<close>, and the guard skips the call.
\<close>

definition priv_resolve :: "provider \<Rightarrow> jsval \<Rightarrow> jsval \<Rightarrow> unit outcome" where
  "priv_resolve s ident result =
     (case data_result result of
        Inl e \<Rightarrow> (Inl e, s)
      | Inr r \<Rightarrow>
          (let data = JObj [(''jsonrpc'', JStr ''2.0''), (''id'', ident), (''result'', r)] in
           (case lookup s (ToString ident) of
              Missing \<Rightarrow> (Inl (TypeError ''Cannot destructure property resolve of undefined''), s)
            | Inherited \<Rightarrow> (Inr (), s)
            | Entry p \<Rightarrow>
                (Inr (), delete_key (s\<lparr>settled := settle p (Fulfilled data) (settled s)\<rparr>)
                           (ToString ident)))))"

definition priv_reject :: "provider \<Rightarrow> jsval \<Rightarrow> jsval \<Rightarrow> unit outcome" where
  "priv_reject s ident error =
     (case lookup s (ToString ident) of
        Missing \<Rightarrow> (Inl (TypeError ''Cannot destructure property reject of undefined''), s)
      | Inherited \<Rightarrow> (Inr (), s)
      | Entry p \<Rightarrow>
          (let err = (if instanceof_Error error then error else new_Error error) in
           (Inr (), delete_key (s\<lparr>settled := settle p (Rejected err) (settled s)\<rparr>)
                      (ToString ident))))"

subsection \<open>The bridge to the host\<close>

text \<open>
  The host's message handler \<open>window.webkit.messageHandlers[handler]\<close> is taken to be
  installed; a message posted to it is recorded in \<open>posted\<close>.
\<close>

definition postMessage :: "provider \<Rightarrow> string \<Rightarrow> jsval \<Rightarrow> jsval \<Rightarrow> unit outcome" where
  "postMessage s handler ident data =
     (if ready s \<or> handler = ''requestAccounts'' then
        (Inr (), s\<lparr>posted := posted s @
           [(handler, JObj [(''name'', JStr handler), (''object'', data), (''id'', ident)])]\<rparr>)
      else priv_reject s ident (JError ''provider is not ready''))"

subsection \<open>Internal RPC handlers\<close>

text \<open>The object \<open>{ jsonrpc, id, method, params }\<close> built by \<open>send\<close>.\<close>

record payload =
  pl_jsonrpc :: jsval
  pl_id :: jsval
  pl_method :: jsval
  pl_params :: jsval

definition payload_obj :: "payload \<Rightarrow> jsval" where
  "payload_obj pl =
     JObj [(''jsonrpc'', pl_jsonrpc pl), (''id'', pl_id pl),
           (''method'', pl_method pl), (''params'', pl_params pl)]"

definition eth_accounts :: "provider \<Rightarrow> jsval" where
  "eth_accounts s = (if address s \<noteq> [] then JArr [JStr (address s)] else JArr [])"

definition eth_coinbase :: "provider \<Rightarrow> jsval" where
  "eth_coinbase s = JStr (address s)"

definition net_version :: "provider \<Rightarrow> exn + jsval" where
  "net_version s =
     (case toString (chainId s) 10 of
        Inl e \<Rightarrow> Inl e
      | Inr str \<Rightarrow> Inr (if str \<noteq> [] then JStr str else JNull))"

definition eth_chainId :: "provider \<Rightarrow> exn + jsval" where
  "eth_chainId s =
     (case toString (chainId s) 16 of
        Inl e \<Rightarrow> Inl e
      | Inr str \<Rightarrow> Inr (JStr (''0x'' @ str)))"

definition eth_sign :: "provider \<Rightarrow> payload \<Rightarrow> unit outcome" where
  "eth_sign s pl =
     postMessage s ''signMessage'' (pl_id pl) (JObj [(''data'', index (pl_params pl) 1)])"

definition personal_sign :: "provider \<Rightarrow> payload \<Rightarrow> unit outcome" where
  "personal_sign s pl =
     postMessage s ''signPersonalMessage'' (pl_id pl) (JObj [(''data'', index (pl_params pl) 0)])"

definition personal_ecRecover :: "provider \<Rightarrow> payload \<Rightarrow> unit outcome" where
  "personal_ecRecover s pl =
     postMessage s ''ecRecover'' (pl_id pl)
       (JObj [(''signature'', index (pl_params pl) 1), (''message'', index (pl_params pl) 0)])"

definition eth_signTypedData :: "provider \<Rightarrow> payload \<Rightarrow> unit outcome" where
  "eth_signTypedData s pl =
     postMessage s ''signTypedMessage'' (pl_id pl) (JObj [(''data'', index (pl_params pl) 1)])"

definition eth_sendTransaction :: "provider \<Rightarrow> payload \<Rightarrow> unit outcome" where
  "eth_sendTransaction s pl =
     postMessage s ''signTransaction'' (pl_id pl) (index (pl_params pl) 0)"

definition eth_requestAccounts :: "provider \<Rightarrow> payload \<Rightarrow> unit outcome" where
  "eth_requestAccounts s pl = postMessage s ''requestAccounts'' (pl_id pl) (JObj [])"

text \<open>
  A call to a collaborator returns a promise whose handlers settle the identifier later;
  the call is recorded together with that identifier.
\<close>

definition call_out :: "provider \<Rightarrow> request \<Rightarrow> jsval \<Rightarrow> unit outcome" where
  "call_out s r ident = (Inr (), s\<lparr>requests := requests s @ [(r, ident)]\<rparr>)"

definition eth_newFilter :: "provider \<Rightarrow> payload \<Rightarrow> unit outcome" where
  "eth_newFilter s pl = call_out s (NewFilter (priv_filterMgr s) (payload_obj pl)) (pl_id pl)"

definition eth_newBlockFilter :: "provider \<Rightarrow> payload \<Rightarrow> unit outcome" where
  "eth_newBlockFilter s pl = call_out s (NewBlockFilter (priv_filterMgr s)) (pl_id pl)"

definition eth_newPendingTransactionFilter :: "provider \<Rightarrow> payload \<Rightarrow> unit outcome" where
  "eth_newPendingTransactionFilter s pl =
     call_out s (NewPendingTransactionFilter (priv_filterMgr s)) (pl_id pl)"

definition eth_uninstallFilter :: "provider \<Rightarrow> payload \<Rightarrow> unit outcome" where
  "eth_uninstallFilter s pl =
     call_out s (UninstallFilter (priv_filterMgr s) (index (pl_params pl) 0)) (pl_id pl)"

definition eth_getFilterChanges :: "provider \<Rightarrow> payload \<Rightarrow> unit outcome" where
  "eth_getFilterChanges s pl =
     call_out s (GetFilterChanges (priv_filterMgr s) (index (pl_params pl) 0)) (pl_id pl)"

definition eth_getFilterLogs :: "provider \<Rightarrow> payload \<Rightarrow> unit outcome" where
  "eth_getFilterLogs s pl =
     call_out s (GetFilterLogs (priv_filterMgr s) (index (pl_params pl) 0)) (pl_id pl)"

subsection \<open>send\<close>

text \<open>The \<open>switch\<close> of \<open>send\<close> on \<open>payload.method\<close>, in the order of the source.\<close>

definition dispatch :: "provider \<Rightarrow> payload \<Rightarrow> unit outcome" where
  "dispatch s pl =
     (let m = pl_method pl in
      if m = JStr ''eth_accounts'' then priv_resolve s (pl_id pl) (eth_accounts s)
      else if m = JStr ''eth_coinbase'' then priv_resolve s (pl_id pl) (eth_coinbase s)
      else if m = JStr ''net_version'' then
        (case net_version s of Inl e \<Rightarrow> (Inl e, s) | Inr v \<Rightarrow> priv_resolve s (pl_id pl) v)
      else if m = JStr ''eth_chainId'' then
        (case eth_chainId s of Inl e \<Rightarrow> (Inl e, s) | Inr v \<Rightarrow> priv_resolve s (pl_id pl) v)
      else if m = JStr ''eth_sign'' then eth_sign s pl
      else if m = JStr ''personal_sign'' then personal_sign s pl
      else if m = JStr ''personal_ecRecover'' then personal_ecRecover s pl
      else if m = JStr ''eth_signTypedData'' \<or> m = JStr ''eth_signTypedData_v3'' then
        eth_signTypedData s pl
      else if m = JStr ''eth_sendTransaction'' then eth_sendTransaction s pl
      else if m = JStr ''eth_requestAccounts'' then eth_requestAccounts s pl
      else if m = JStr ''eth_newFilter'' then eth_newFilter s pl
      else if m = JStr ''eth_newBlockFilter'' then eth_newBlockFilter s pl
      else if m = JStr ''eth_newPendingTransactionFilter'' then
        eth_newPendingTransactionFilter s pl
      else if m = JStr ''eth_uninstallFilter'' then eth_uninstallFilter s pl
      else if m = JStr ''eth_getFilterChanges'' then eth_getFilterChanges s pl
      else if m = JStr ''eth_getFilterLogs'' then eth_getFilterLogs s pl
      else call_out s (RpcCall (priv_rpc s) (payload_obj pl)) (pl_id pl))"

text \<open>What \<open>send\<close> returns: an \<open>Error\<close> value (returned, not thrown) or a promise.\<close>

datatype send_ret = RetError jsval | RetPromise nat

text \<open>
  \<open>Utils.genId\<close> (\<^verbatim>\<open>./utils\<close>) is external: \<open>gen\<close> is the value it returns when this
  call asks for one. The executor of \<open>new Promise\<close> runs at once, so the promise is
  created and its entry stored before the \<open>switch\<close>.
\<close>

definition send :: "provider \<Rightarrow> jsval \<Rightarrow> jsval \<Rightarrow> jsval \<Rightarrow> jsval \<Rightarrow> send_ret outcome" where
  "send s method_arg params_arg id_arg gen =
     (if \<not> truthy method_arg \<or> typeof method_arg \<noteq> ''string'' then
        (Inr (RetError (JError ''Method is not a valid string.'')), s)
      else if \<not> instanceof_Array params_arg then
        (Inr (RetError (JError ''Params is not a valid array.'')), s)
      else
        (let ident = (if \<not> truthy id_arg then gen else id_arg);
             pl = \<lparr>pl_jsonrpc = JStr ''2.0'', pl_id = ident,
                   pl_method = method_arg, pl_params = params_arg\<rparr>;
             p = length (settled s);
             s1 = assign (s\<lparr>settled := settled s @ [Pending]\<rparr>) (ToString (pl_id pl)) p
         in (case dispatch s1 pl of
               (Inl e, s2) \<Rightarrow> (Inl e, s2)
             | (Inr u, s2) \<Rightarrow> (Inr (RetPromise p), s2))))"

subsection \<open>sendAsync\<close>

text \<open>
  What the handlers \<open>.then(data => callback(null, data))\<close> and
  \<open>.catch(error => callback(error instanceof Error ? error : new Error(error), null))\<close>
  pass to the callback once the promise they are attached to has settled.
\<close>

fun callback_args :: "pstate \<Rightarrow> (jsval \<times> jsval) option" where
  "callback_args Pending = None"
| "callback_args (Fulfilled data) = Some (JNull, data)"
| "callback_args (Rejected error) =
     Some (if instanceof_Error error then error else new_Error error, JNull)"

text \<open>The call \<open>this.send(payload.method, payload.params, payload.id)\<close>.\<close>

definition send_payload :: "provider \<Rightarrow> jsval \<Rightarrow> jsval \<Rightarrow> send_ret outcome" where
  "send_payload s pay gen =
     (case get_prop pay ''method'' of Inl e \<Rightarrow> (Inl e, s) | Inr m \<Rightarrow>
     (case get_prop pay ''params'' of Inl e \<Rightarrow> (Inl e, s) | Inr ps \<Rightarrow>
     (case get_prop pay ''id'' of Inl e \<Rightarrow> (Inl e, s) | Inr i \<Rightarrow> send s m ps i gen)))"

text \<open>
  In the array branch the argument of \<open>payload.map\<close> is the value of that call, an
  \<open>Error\<close> or a promise: \<open>map\<close> throws on an argument that is no function, before it
  looks at any element. In the other branch \<open>.then\<close> is called on what \<open>send\<close>
  returned, and an \<open>Error\<close> has no such method. The callback is a handle \<open>callback\<close>;
  \<open>attached\<close> records that the two handlers above wait on the promise.
\<close>

definition sendAsync :: "provider \<Rightarrow> jsval \<Rightarrow> nat \<Rightarrow> jsval \<Rightarrow> unit outcome" where
  "sendAsync s pay callback gen =
     (if instanceof_Array pay then
        (case send_payload s pay gen of
           (Inl e, s1) \<Rightarrow> (Inl e, s1)
         | (Inr r, s1) \<Rightarrow> (Inl (TypeError ''the argument of map is not a function''), s1))
      else
        (case send_payload s pay gen of
           (Inl e, s1) \<Rightarrow> (Inl e, s1)
         | (Inr (RetError err), s1) \<Rightarrow> (Inl (TypeError ''then is not a function''), s1)
         | (Inr (RetPromise p), s1) \<Rightarrow>
             (Inr (), s1\<lparr>attached := attached s1 @ [(p, callback)]\<rparr>)))"

section \<open>Notions used in the statements\<close>

text \<open>The methods whose case of the \<open>switch\<close> goes through \<open>postMessage\<close>.\<close>

definition bridge_methods :: "string list" where
  "bridge_methods =
     [''eth_sign'', ''personal_sign'', ''personal_ecRecover'', ''eth_signTypedData'',
      ''eth_signTypedData_v3'', ''eth_sendTransaction'', ''eth_requestAccounts'']"

text \<open>The labels of the \<open>switch\<close>; every other method goes to the remote node.\<close>

definition switch_cases :: "string list" where
  "switch_cases =
     [''eth_accounts'', ''eth_coinbase'', ''net_version'', ''eth_chainId'', ''eth_sign'',
      ''personal_sign'', ''personal_ecRecover'', ''eth_signTypedData'', ''eth_signTypedData_v3'',
      ''eth_sendTransaction'', ''eth_requestAccounts'', ''eth_newFilter'', ''eth_newBlockFilter'',
      ''eth_newPendingTransactionFilter'', ''eth_uninstallFilter'', ''eth_getFilterChanges'',
      ''eth_getFilterLogs'']"

text \<open>
  An outcome reached from \<open>s\<close> leaves the promise \<open>p1\<close> alone: the table does not hold
  it under the key \<open>k\<close>, and its state in the store is what it was.
\<close>

definition leaves :: "string \<Rightarrow> nat \<Rightarrow> provider \<Rightarrow> 'a outcome \<Rightarrow> bool" where
  "leaves k p1 s r \<longleftrightarrow> lookup (snd r) k \<noteq> Entry p1 \<and> settled (snd r) ! p1 = settled s ! p1"

text \<open>
  Reading a decimal numeral back, with an optional leading minus sign: what it means
  for a string to be the decimal representation of an integer.
\<close>

definition digit_value :: "char \<Rightarrow> nat" where
  "digit_value c = of_char c - 48"

definition decimal_nat :: "string \<Rightarrow> nat" where
  "decimal_nat cs = foldl (\<lambda>a c. 10 * a + digit_value c) 0 cs"

definition decimal_int :: "string \<Rightarrow> int" where
  "decimal_int cs =
     (case cs of
        [] \<Rightarrow> 0
      | c # ds \<Rightarrow> if c = CHR ''-'' then - int (decimal_nat ds) else int (decimal_nat cs))"

text \<open>Whether a value is an object with an own property of the given name.\<close>

fun has_prop :: "jsval \<Rightarrow> string \<Rightarrow> bool" where
  "has_prop (JObj ps) name = (map_of ps name \<noteq> None)"
| "has_prop v name = False"

text \<open>Whether a number is a safe integer, \<open>Number.isSafeInteger\<close>.\<close>

definition safe_integer :: "int \<Rightarrow> bool" where
  "safe_integer n \<longleftrightarrow> - (2 ^ 53) < n \<and> n < 2 ^ 53"

section \<open>Example states\<close>

text \<open>
  A provider constructed for the account \<open>0xABC\<close> on chain 1; the same provider after
  \<open>send("eth_sign", ["0xabc", "msg"], 7)\<close>, which leaves the identifier 7 pending; and
  that provider after the host has answered 7 once.
\<close>

definition example_config :: jsval where
  "example_config =
     JObj [(''chainId'', JNum 1), (''address'', JStr ''0xABC''), (''rpcUrl'', JStr ''https://node'')]"

definition fresh :: provider where
  "fresh = projr (constructor example_config)"

definition signing :: provider where
  "signing =
     snd (send fresh (JStr ''eth_sign'') (JArr [JStr ''0xabc'', JStr ''msg'']) (JNum 7) (JNum 99))"

definition signed :: provider where
  "signed = snd (priv_resolve signing (JNum 7) (JStr ''0xsig''))"

text \<open>
  A provider constructed without an address, which is not ready, and the same provider
  after \<open>send("eth_requestAccounts", [], 7)\<close>, which leaves 7 pending.
\<close>

definition not_ready :: provider where
  "not_ready =
     projr (constructor (JObj [(''chainId'', JNum 0), (''rpcUrl'', JStr ''https://node'')]))"

definition asking :: provider where
  "asking = snd (send not_ready (JStr ''eth_requestAccounts'') (JArr []) (JNum 7) (JNum 99))"

text \<open>The provider with 7 pending, after \<open>setConfig\<close> with the example configuration.\<close>

definition reconfigured :: provider where
  "reconfigured = snd (setConfig signing example_config)"

text \<open>The provider with 7 pending after a second \<open>send\<close> under the identifier 7.\<close>

definition signing_twice :: provider where
  "signing_twice =
     snd (send signing (JStr ''eth_sign'') (JArr [JStr ''0xabc'', JStr ''other'']) (JNum 7) (JNum 99))"

text \<open>A provider constructed without a chain id: \<open>chainId\<close> is \<open>undefined\<close>.\<close>

definition no_chain :: provider where
  "no_chain =
     projr (constructor (JObj [(''address'', JStr ''0xABC''), (''rpcUrl'', JStr ''https://node'')]))"

text \<open>A response of a remote node that is already an envelope.\<close>

definition wrapped_response :: jsval where
  "wrapped_response = JObj [(''jsonrpc'', JStr ''2.0''), (''id'', JNum 7), (''result'', JStr ''0xsig'')]"

text \<open>An error response of a remote node: tagged, with no \<open>result\<close> property.\<close>

definition error_response :: jsval where
  "error_response =
     JObj [(''jsonrpc'', JStr ''2.0''), (''id'', JNum 7),
           (''error'', JObj [(''code'', JNum (- 32601)), (''message'', JStr ''no such method'')])]"

section \<open>Properties\<close>

subsection \<open>Auxiliary facts\<close>

lemma toLowerCase_Nil_iff: "toLowerCase s = [] \<longleftrightarrow> s = []"
  by (simp add: toLowerCase_def)

lemma lowered_cases:
  "lowered JUndefined = Inr []"
  "lowered (JStr str) = Inr (toLowerCase str)"
  by (simp_all add: lowered_def toLowerCase_def)

lemma lookup_assign: "lookup (assign s k p) k = Entry p"
  by (auto simp: lookup_def assign_def update_conv')

lemma lookup_settled_update [simp]: "lookup (s\<lparr>settled := xs\<rparr>) k = lookup s k"
  by (auto simp: lookup_def split: option.splits)

lemma settle_new: "settle (length xs) r (xs @ [Pending]) = xs @ [r]"
  by (simp add: settle_def)

lemma assign_fields [simp]:
  "settled (assign s k p) = settled s" "posted (assign s k p) = posted s"
  "requests (assign s k p) = requests s" "ready (assign s k p) = ready s"
  "address (assign s k p) = address s" "chainId (assign s k p) = chainId s"
  "priv_rpc (assign s k p) = priv_rpc s" "priv_filterMgr (assign s k p) = priv_filterMgr s"
  by (simp_all add: assign_def)

lemma delete_key_fields [simp]:
  "settled (delete_key s k) = settled s" "posted (delete_key s k) = posted s"
  "requests (delete_key s k) = requests s" "ready (delete_key s k) = ready s"
  by (simp_all add: delete_key_def)

lemma priv_reject_entry:
  "lookup s (ToString ident) = Entry p \<Longrightarrow>
   priv_reject s ident e =
     (Inr (), delete_key (s\<lparr>settled := settle p (Rejected (if instanceof_Error e then e else new_Error e)) (settled s)\<rparr>) (ToString ident))"
  by (simp add: priv_reject_def)

lemma priv_resolve_entry:
  "lookup s (ToString ident) = Entry p \<Longrightarrow> data_result v = Inr r \<Longrightarrow>
   priv_resolve s ident v =
     (Inr (), delete_key (s\<lparr>settled := settle p (Fulfilled (JObj [(''jsonrpc'', JStr ''2.0''), (''id'', ident), (''result'', r)])) (settled s)\<rparr>) (ToString ident))"
  by (simp add: priv_resolve_def)

lemma setConfig_frame:
  assumes "setConfig s config = (Inr (), s')"
  shows "s' = s\<lparr>chainId := chainId s', address := address s', ready := ready s',
                 priv_rpc := priv_rpc s', priv_filterMgr := priv_filterMgr s',
                 emitted := emitted s'\<rparr>"
  using assms
  by (auto simp: setConfig_def setAddress_def priv_emitAccountsChanged_def
      priv_emitNetworkChanged_def emit_def Let_def split: sum.splits)

lemma postMessage_not_ready:
  "\<not> ready s \<Longrightarrow> handler \<noteq> ''requestAccounts'' \<Longrightarrow> lookup s (ToString ident) = Entry p \<Longrightarrow>
   postMessage s handler ident data =
     (Inr (), delete_key (s\<lparr>settled := settle p (Rejected (JError ''provider is not ready'')) (settled s)\<rparr>) (ToString ident))"
  by (simp add: postMessage_def priv_reject_entry)

lemma postMessage_delivers:
  "ready s \<or> handler = ''requestAccounts'' \<Longrightarrow>
   postMessage s handler ident data =
     (Inr (), s\<lparr>posted := posted s @ [(handler, JObj [(''name'', JStr handler), (''object'', data), (''id'', ident)])]\<rparr>)"
  by (simp add: postMessage_def)

lemma send_valid:
  "m \<noteq> [] \<Longrightarrow>
   send s (JStr m) (JArr ps) id_arg gen =
     (let ident = (if \<not> truthy id_arg then gen else id_arg);
          pl = \<lparr>pl_jsonrpc = JStr ''2.0'', pl_id = ident, pl_method = JStr m, pl_params = JArr ps\<rparr>;
          p = length (settled s);
          s1 = assign (s\<lparr>settled := settled s @ [Pending]\<rparr>) (ToString ident) p
      in (case dispatch s1 pl of
            (Inl e, s2) \<Rightarrow> (Inl e, s2)
          | (Inr u, s2) \<Rightarrow> (Inr (RetPromise p), s2)))"
  by (simp add: send_def Let_def)

lemmas bridge_defs = eth_sign_def personal_sign_def personal_ecRecover_def
  eth_signTypedData_def eth_sendTransaction_def eth_requestAccounts_def

lemma bridge_method_nonempty: "m \<in> set bridge_methods \<Longrightarrow> m \<noteq> []"
  by (rule notI) (simp add: bridge_methods_def)

lemma dispatch_bridge:
  assumes "m \<in> set bridge_methods"
  shows "\<exists>handler data.
           (handler = ''requestAccounts'' \<longleftrightarrow> m = ''eth_requestAccounts'')
           \<and> (\<forall>s. dispatch s \<lparr>pl_jsonrpc = v, pl_id = ident, pl_method = JStr m, pl_params = JArr ps\<rparr>
                    = postMessage s handler ident data)"
proof -
  let ?P = "\<lambda>handler data.
           (handler = ''requestAccounts'' \<longleftrightarrow> m = ''eth_requestAccounts'')
           \<and> (\<forall>s. dispatch s \<lparr>pl_jsonrpc = v, pl_id = ident, pl_method = JStr m, pl_params = JArr ps\<rparr>
                    = postMessage s handler ident data)"
  from assms have "m = ''eth_sign'' \<or> m = ''personal_sign'' \<or> m = ''personal_ecRecover''
    \<or> m = ''eth_signTypedData'' \<or> m = ''eth_signTypedData_v3'' \<or> m = ''eth_sendTransaction''
    \<or> m = ''eth_requestAccounts''"
    by (simp add: bridge_methods_def)
  then show ?thesis
  proof (elim disjE)
    assume 1: "m = ''eth_sign''"
    then have "?P ''signMessage'' (JObj [(''data'', index (JArr ps) 1)])"
      by (simp add: dispatch_def eth_sign_def)
    then show ?thesis by (intro exI)
  next
    assume 2: "m = ''personal_sign''"
    then have "?P ''signPersonalMessage'' (JObj [(''data'', index (JArr ps) 0)])"
      by (simp add: dispatch_def personal_sign_def)
    then show ?thesis by (intro exI)
  next
    assume 3: "m = ''personal_ecRecover''"
    then have "?P ''ecRecover''
        (JObj [(''signature'', index (JArr ps) 1), (''message'', index (JArr ps) 0)])"
      by (simp add: dispatch_def personal_ecRecover_def)
    then show ?thesis by (intro exI)
  next
    assume 4: "m = ''eth_signTypedData''"
    then have "?P ''signTypedMessage'' (JObj [(''data'', index (JArr ps) 1)])"
      by (simp add: dispatch_def eth_signTypedData_def)
    then show ?thesis by (intro exI)
  next
    assume 5: "m = ''eth_signTypedData_v3''"
    then have "?P ''signTypedMessage'' (JObj [(''data'', index (JArr ps) 1)])"
      by (simp add: dispatch_def eth_signTypedData_def)
    then show ?thesis by (intro exI)
  next
    assume 6: "m = ''eth_sendTransaction''"
    then have "?P ''signTransaction'' (index (JArr ps) 0)"
      by (simp add: dispatch_def eth_sendTransaction_def)
    then show ?thesis by (intro exI)
  next
    assume 7: "m = ''eth_requestAccounts''"
    then have "?P ''requestAccounts'' (JObj [])"
      by (simp add: dispatch_def eth_requestAccounts_def)
    then show ?thesis by (intro exI)
  qed
qed

lemma send_bridge_not_ready:
  assumes "m \<in> set bridge_methods" "\<not> ready s" "m \<noteq> ''eth_requestAccounts''"
  shows "\<exists>s'. send s (JStr m) (JArr ps) id_arg gen = (Inr (RetPromise (length (settled s))), s')
            \<and> settled s' = settled s @ [Rejected (JError ''provider is not ready'')]
            \<and> posted s' = posted s"
proof -
  have m: "m \<noteq> []"
    using assms(1) by (rule bridge_method_nonempty)
  define ident where "ident = (if \<not> truthy id_arg then gen else id_arg)"
  define s1 where "s1 = assign (s\<lparr>settled := settled s @ [Pending]\<rparr>) (ToString ident) (length (settled s))"
  from dispatch_bridge [OF assms(1), of "JStr ''2.0''" ident ps] assms(3)
  obtain handler data where h: "handler \<noteq> ''requestAccounts''"
    and d: "dispatch s1 \<lparr>pl_jsonrpc = JStr ''2.0'', pl_id = ident, pl_method = JStr m, pl_params = JArr ps\<rparr>
            = postMessage s1 handler ident data"
    by blast
  have l: "lookup s1 (ToString ident) = Entry (length (settled s))"
    by (simp add: s1_def lookup_assign)
  have r: "\<not> ready s1" using assms(2) by (simp add: s1_def)
  show ?thesis
    by (simp add: send_valid [OF m] Let_def ident_def [symmetric] s1_def [symmetric] d
        postMessage_not_ready [OF r h l])
      (simp add: s1_def settle_new)
qed

lemma send_bridge_delivers:
  assumes "m \<in> set bridge_methods" "ready s \<or> m = ''eth_requestAccounts''"
  shows "\<exists>s' handler data.
            send s (JStr m) (JArr ps) id_arg gen = (Inr (RetPromise (length (settled s))), s')
            \<and> settled s' = settled s @ [Pending]
            \<and> posted s' = posted s @
                 [(handler, JObj [(''name'', JStr handler), (''object'', data),
                                  (''id'', if \<not> truthy id_arg then gen else id_arg)])]
            \<and> lookup s' (ToString (if \<not> truthy id_arg then gen else id_arg)) = Entry (length (settled s))"
proof -
  have m: "m \<noteq> []"
    using assms(1) by (rule bridge_method_nonempty)
  define ident where "ident = (if \<not> truthy id_arg then gen else id_arg)"
  define s1 where "s1 = assign (s\<lparr>settled := settled s @ [Pending]\<rparr>) (ToString ident) (length (settled s))"
  from dispatch_bridge [OF assms(1), of "JStr ''2.0''" ident ps]
  obtain handler data where h: "handler = ''requestAccounts'' \<longleftrightarrow> m = ''eth_requestAccounts''"
    and d: "dispatch s1 \<lparr>pl_jsonrpc = JStr ''2.0'', pl_id = ident, pl_method = JStr m, pl_params = JArr ps\<rparr>
            = postMessage s1 handler ident data"
    by blast
  have l: "lookup s1 (ToString ident) = Entry (length (settled s))"
    by (simp add: s1_def lookup_assign)
  have r: "ready s1 \<or> handler = ''requestAccounts''" using assms(2) h by (simp add: s1_def)
  have l': "lookup (s1\<lparr>posted := x\<rparr>) k = lookup s1 k" for x k
    by (auto simp: lookup_def split: option.splits)
  have "send s (JStr m) (JArr ps) id_arg gen =
      (Inr (RetPromise (length (settled s))),
       s1\<lparr>posted := posted s1 @ [(handler, JObj [(''name'', JStr handler), (''object'', data), (''id'', ident)])]\<rparr>)"
    by (simp add: send_valid [OF m] Let_def ident_def [symmetric] s1_def [symmetric] d
        postMessage_delivers [OF r])
  moreover have "settled s1 = settled s @ [Pending]" "posted s1 = posted s"
    by (simp_all add: s1_def)
  ultimately show ?thesis
    unfolding ident_def [symmetric] using l by (simp add: l')
qed

lemma data_result_wrapped:
  "typeof v = ''object'' \<Longrightarrow> get_prop v ''jsonrpc'' = Inr j \<Longrightarrow> truthy j \<Longrightarrow>
   get_prop v ''result'' = Inr r \<Longrightarrow> truthy r \<Longrightarrow> data_result v = Inr r"
  by (simp add: data_result_def)

lemma data_result_plain:
  "typeof v \<noteq> ''object'' \<or> (get_prop v ''jsonrpc'' = Inr j \<and> \<not> truthy j) \<Longrightarrow> data_result v = Inr v"
  by (auto simp: data_result_def)

lemma data_result_no_result:
  assumes "v \<noteq> JNull \<and> \<not> has_prop v ''result''"
  shows "data_result v = Inr v"
proof (cases v)
  case (JObj ps)
  with assms have "map_of ps ''result'' = None" by simp
  with JObj show ?thesis by (simp add: data_result_def)
qed (use assms in \<open>simp_all add: data_result_def\<close>)

lemma settle_other: "p1 \<noteq> p2 \<Longrightarrow> settle p2 r xs ! p1 = xs ! p1"
  by (simp add: settle_def)

lemma lookup_after_delete:
  "lookup s k = Entry p2 \<Longrightarrow> p1 \<noteq> p2 \<Longrightarrow> lookup (delete_key (s\<lparr>settled := xs\<rparr>) k) k \<noteq> Entry p1"
  by (auto simp: lookup_def delete_key_def delete_conv' split: option.splits if_splits)

lemma leaves_same: "lookup s k = Entry p2 \<Longrightarrow> p1 \<noteq> p2 \<Longrightarrow> leaves k p1 s (r, s)"
  by (simp add: leaves_def)

lemma priv_resolve_leaves:
  assumes "lookup s (ToString ident) = Entry p2" "p1 \<noteq> p2"
  shows "leaves (ToString ident) p1 s (priv_resolve s ident v)"
proof (cases "data_result v")
  case (Inl e)
  with assms show ?thesis by (simp add: priv_resolve_def leaves_def)
next
  case (Inr r)
  with assms show ?thesis
    by (simp add: priv_resolve_entry leaves_def lookup_after_delete settle_other)
qed

lemma priv_reject_leaves:
  assumes "lookup s (ToString ident) = Entry p2" "p1 \<noteq> p2"
  shows "leaves (ToString ident) p1 s (priv_reject s ident e)"
  using assms by (simp add: priv_reject_entry leaves_def lookup_after_delete settle_other)

lemma lookup_posted_update [simp]: "lookup (s\<lparr>posted := xs\<rparr>) k = lookup s k"
  by (auto simp: lookup_def split: option.splits)

lemma lookup_requests_update [simp]: "lookup (s\<lparr>requests := xs\<rparr>) k = lookup s k"
  by (auto simp: lookup_def split: option.splits)

lemma postMessage_leaves:
  assumes "lookup s (ToString ident) = Entry p2" "p1 \<noteq> p2"
  shows "leaves (ToString ident) p1 s (postMessage s handler ident data)"
proof (cases "ready s \<or> handler = ''requestAccounts''")
  case True
  with assms show ?thesis by (simp add: postMessage_delivers leaves_def)
next
  case False
  then have "postMessage s handler ident data = priv_reject s ident (JError ''provider is not ready'')"
    by (simp add: postMessage_def)
  with assms show ?thesis by (simp add: priv_reject_leaves)
qed

lemma call_out_leaves:
  assumes "lookup s (ToString ident) = Entry p2" "p1 \<noteq> p2"
  shows "leaves (ToString ident) p1 s (call_out s r ident)"
  using assms by (simp add: call_out_def leaves_def)

lemma local_leaves:
  assumes "lookup s (ToString ident) = Entry p2" "p1 \<noteq> p2"
  shows "leaves (ToString ident) p1 s
           (case x of Inl e \<Rightarrow> (Inl e, s) | Inr v \<Rightarrow> priv_resolve s ident v)"
  using assms by (cases x) (simp_all add: priv_resolve_leaves leaves_same)

lemmas filter_defs = eth_newFilter_def eth_newBlockFilter_def eth_newPendingTransactionFilter_def
  eth_uninstallFilter_def eth_getFilterChanges_def eth_getFilterLogs_def

lemma dispatch_leaves:
  assumes "lookup s (ToString (pl_id pl)) = Entry p2" "p1 \<noteq> p2"
  shows "leaves (ToString (pl_id pl)) p1 s (dispatch s pl)"
  using assms
  by (simp add: dispatch_def Let_def filter_defs bridge_defs priv_resolve_leaves
      postMessage_leaves call_out_leaves local_leaves)


lemma dispatch_remote:
  "m \<notin> set switch_cases \<Longrightarrow>
   dispatch s \<lparr>pl_jsonrpc = v, pl_id = ident, pl_method = JStr m, pl_params = ps\<rparr> =
     call_out s (RpcCall (priv_rpc s)
        (payload_obj \<lparr>pl_jsonrpc = v, pl_id = ident, pl_method = JStr m, pl_params = ps\<rparr>)) ident"
  by (simp add: dispatch_def switch_cases_def)

lemma send_remote:
  assumes "m \<notin> set switch_cases" "m \<noteq> []"
  shows "\<exists>s'. send s (JStr m) (JArr ps) id_arg gen = (Inr (RetPromise (length (settled s))), s')
            \<and> settled s' = settled s @ [Pending]
            \<and> lookup s' (ToString (if \<not> truthy id_arg then gen else id_arg)) = Entry (length (settled s))
            \<and> requests s' = requests s @
                 [(RpcCall (priv_rpc s)
                     (JObj [(''jsonrpc'', JStr ''2.0''),
                            (''id'', if \<not> truthy id_arg then gen else id_arg),
                            (''method'', JStr m), (''params'', JArr ps)]),
                   if \<not> truthy id_arg then gen else id_arg)]"
  by (simp add: send_valid [OF assms(2)] Let_def dispatch_remote [OF assms(1)] call_out_def
      lookup_assign payload_obj_def)

lemma digit_char_cases:
  assumes "d < 10"
  shows "digit_value (digit_char d) = d \<and> digit_char d \<noteq> CHR ''-''"
proof -
  from assms have "d = 0 \<or> d = 1 \<or> d = 2 \<or> d = 3 \<or> d = 4 \<or> d = 5 \<or> d = 6 \<or> d = 7 \<or> d = 8 \<or> d = 9"
    by arith
  then show ?thesis
    by (elim disjE) (simp_all add: digit_char_def digit_value_def)
qed

lemma radix_digits_nonempty: "radix_digits b n \<noteq> []"
  by (subst radix_digits.simps) simp

lemma hd_radix_digits: "hd (radix_digits 10 n) \<noteq> CHR ''-''"
proof (induction "10::nat" n rule: radix_digits.induct)
  case (1 n)
  show ?case
  proof (cases "n < 10")
    case True
    then show ?thesis
      by (subst radix_digits.simps) (simp add: digit_char_cases)
  next
    case False
    with 1 show ?thesis
      by (subst radix_digits.simps) (simp add: radix_digits_nonempty)
  qed
qed

lemma decimal_nat_snoc: "decimal_nat (cs @ [c]) = 10 * decimal_nat cs + digit_value c"
  by (simp add: decimal_nat_def)

lemma decimal_nat_radix_digits: "decimal_nat (radix_digits 10 n) = n"
proof (induction "10::nat" n rule: radix_digits.induct)
  case (1 n)
  show ?case
  proof (cases "n < 10")
    case True
    then show ?thesis
      by (subst radix_digits.simps) (simp add: decimal_nat_def digit_char_cases)
  next
    case False
    then have "decimal_nat (radix_digits 10 (n div 10)) = n div 10"
      using 1 by simp
    with False show ?thesis
      by (subst radix_digits.simps) (simp add: decimal_nat_snoc digit_char_cases)
  qed
qed

lemma decimal_int_number_toString: "decimal_int (number_toString 10 n) = n"
proof (cases "n < 0")
  case True
  then show ?thesis
    by (simp add: number_toString_def decimal_int_def decimal_nat_radix_digits)
next
  case False
  obtain c ds where r: "radix_digits 10 (nat n) = c # ds"
    using radix_digits_nonempty [of 10 "nat n"] by (cases "radix_digits 10 (nat n)") auto
  with hd_radix_digits [of "nat n"] have "c \<noteq> CHR ''-''" by simp
  moreover have "decimal_nat (c # ds) = nat n"
    using decimal_nat_radix_digits [of "nat n"] r by simp
  ultimately show ?thesis
    using False by (simp add: number_toString_def decimal_int_def r)
qed

lemma number_toString_nonempty: "number_toString b n \<noteq> []"
  by (simp add: number_toString_def radix_digits_nonempty)

lemma resolve_registered:
  assumes "data_result v = Inr r"
  shows "\<exists>s'. priv_resolve (assign (s\<lparr>settled := settled s @ [Pending]\<rparr>) (ToString ident) (length (settled s))) ident v
              = (Inr (), s')
            \<and> settled s' = settled s @ [Fulfilled (JObj [(''jsonrpc'', JStr ''2.0''), (''id'', ident), (''result'', r)])]"
  by (simp add: priv_resolve_entry [OF lookup_assign assms] settle_new)

lemma data_result_string [simp]: "data_result (JStr x) = Inr (JStr x)"
  by (simp add: data_result_def)

lemma net_version_number: "chainId s = JNum n \<Longrightarrow> net_version s = Inr (JStr (number_toString 10 n))"
  by (simp add: net_version_def number_toString_nonempty)

lemma data_result_array [simp]: "data_result (JArr xs) = Inr (JArr xs)"
  by (simp add: data_result_def)

lemma send_local:
  assumes "m = ''eth_accounts'' \<and> v = eth_accounts s \<or> m = ''eth_coinbase'' \<and> v = eth_coinbase s"
  shows "\<exists>s'. send s (JStr m) (JArr ps) id_arg gen = (Inr (RetPromise (length (settled s))), s')
            \<and> settled s' = settled s @
                 [Fulfilled (JObj [(''jsonrpc'', JStr ''2.0''),
                                   (''id'', if \<not> truthy id_arg then gen else id_arg),
                                   (''result'', v)])]"
proof -
  define ident where "ident = (if \<not> truthy id_arg then gen else id_arg)"
  define s1 where "s1 = assign (s\<lparr>settled := settled s @ [Pending]\<rparr>) (ToString ident) (length (settled s))"
  have m: "m \<noteq> []" using assms by (rule disjE) simp_all
  have d: "data_result v = Inr v"
    using assms by (rule disjE) (simp_all add: eth_accounts_def eth_coinbase_def)
  have e: "eth_accounts s1 = eth_accounts s" "eth_coinbase s1 = eth_coinbase s"
    by (simp_all add: s1_def eth_accounts_def eth_coinbase_def)
  from resolve_registered [OF d, of s ident]
  obtain s' where r: "priv_resolve s1 ident v = (Inr (), s')"
    and st: "settled s' = settled s @ [Fulfilled (JObj [(''jsonrpc'', JStr ''2.0''), (''id'', ident), (''result'', v)])]"
    unfolding s1_def by blast
  have "dispatch s1 \<lparr>pl_jsonrpc = JStr ''2.0'', pl_id = ident, pl_method = JStr m, pl_params = JArr ps\<rparr>
        = priv_resolve s1 ident v"
    using assms by (rule disjE) (simp_all add: dispatch_def e)
  then have "send s (JStr m) (JArr ps) id_arg gen = (Inr (RetPromise (length (settled s))), s')"
    by (simp add: send_valid [OF m] Let_def ident_def [symmetric] s1_def [symmetric] r)
  with st show ?thesis
    unfolding ident_def [symmetric] by simp
qed

lemma send_falsy_id:
  "\<not> truthy id_arg \<Longrightarrow> send s method_arg params_arg id_arg gen = send s method_arg params_arg JUndefined gen"
  by (simp add: send_def)

subsection \<open>Completing an identifier that is not pending\<close>

text \<open>
  Whenever the table holds nothing under the key of the identifier, own or inherited,
  both functions throw and leave the state as it is.
\<close>

lemma priv_resolve_missing:
  "lookup s (ToString ident) = Missing \<Longrightarrow> data_result v = Inr r \<Longrightarrow>
   priv_resolve s ident v = (Inl (TypeError ''Cannot destructure property resolve of undefined''), s)"
  by (simp add: priv_resolve_def)

lemma priv_reject_missing:
  "lookup s (ToString ident) = Missing \<Longrightarrow>
   priv_reject s ident e = (Inl (TypeError ''Cannot destructure property reject of undefined''), s)"
  by (simp add: priv_reject_def)

text \<open>
  C1. The claim: resolving or rejecting an identifier with no live entry in the pending
  table, also one whose entry a first resolve has consumed, is a silent no-op. The code
  does not behave so. On the fresh provider, which has no entry, \<open>_resolve(5, "x")\<close> and
  \<open>_reject(5, "x")\<close> throw a TypeError: the destructuring of \<open>this._promises[id]\<close>
  fails on \<open>undefined\<close> before the guard \<open>if (resolve)\<close> is reached. After the
  identifier 7 has been resolved once, which fulfils its promise and deletes the entry, a
  second \<open>_resolve(7, ...)\<close> or a late \<open>_reject(7, ...)\<close> throws as well. The state is
  left as it was and no continuation is called, but the error escapes to the caller.
\<close>

theorem C1_completion_without_entry_throws:
  "constructor example_config = Inr fresh
   \<and> priv_resolve fresh (JNum 5) (JStr ''x'') =
       (Inl (TypeError ''Cannot destructure property resolve of undefined''), fresh)
   \<and> priv_reject fresh (JNum 5) (JStr ''x'') =
       (Inl (TypeError ''Cannot destructure property reject of undefined''), fresh)
   \<and> priv_resolve signing (JNum 7) (JStr ''0xsig'') = (Inr (), signed)
   \<and> settled signed =
       [Fulfilled (JObj [(''jsonrpc'', JStr ''2.0''), (''id'', JNum 7), (''result'', JStr ''0xsig'')])]
   \<and> priv_resolve signed (JNum 7) (JStr ''0xsig'') =
       (Inl (TypeError ''Cannot destructure property resolve of undefined''), signed)
   \<and> priv_reject signed (JNum 7) (JStr ''late'') =
       (Inl (TypeError ''Cannot destructure property reject of undefined''), signed)"
  by code_simp

theorem C1_second_resolve_throws:
  "fst (priv_resolve signed (JNum 7) (JStr ''0xsig'')) =
     Inl (TypeError ''Cannot destructure property resolve of undefined'')"
  using C1_completion_without_entry_throws by simp

subsection \<open>Readiness follows the address\<close>

text \<open>
  C2. When the address argument is a string or absent, \<open>setAddress\<close>, the constructor
  and \<open>setConfig\<close> complete, and in the state they leave \<open>ready\<close> holds exactly when
  the stored, lowercased address is not the empty string.
\<close>

theorem C2_ready_iff_address_nonempty:
  assumes "a = JUndefined \<or> a = JStr str"
  shows "(\<exists>s'. setAddress s a = (Inr (), s') \<and> ready s' = (address s' \<noteq> []))
       \<and> (get_prop config ''address'' = Inr a \<longrightarrow>
            (\<exists>s'. constructor config = Inr s' \<and> ready s' = (address s' \<noteq> []))
          \<and> (\<exists>s'. setConfig s config = (Inr (), s') \<and> ready s' = (address s' \<noteq> [])))"
proof -
  from assms obtain l where l: "lowered a = Inr l" "truthy a = (l \<noteq> [])"
    by (auto simp: lowered_cases toLowerCase_Nil_iff)
  have sa: "setAddress s a =
      (Inr (), priv_emitAccountsChanged (s\<lparr>address := l, ready := truthy a\<rparr>) (JArr [JStr l]))"
    by (simp add: setAddress_def l)
  have 1: "\<exists>s'. setAddress s a = (Inr (), s') \<and> ready s' = (address s' \<noteq> [])"
    by (simp add: sa l priv_emitAccountsChanged_def emit_def)
  have 2: "\<exists>s'. constructor config = Inr s' \<and> ready s' = (address s' \<noteq> [])"
    if c: "get_prop config ''address'' = Inr a"
  proof -
    from c obtain cid url
      where "get_prop config ''chainId'' = Inr cid" "get_prop config ''rpcUrl'' = Inr url"
      by (cases config) auto
    with c show ?thesis
      by (simp add: constructor_def l priv_connect_def priv_emitConnect_def emit_def)
  qed
  have 3: "\<exists>s'. setConfig s config = (Inr (), s') \<and> ready s' = (address s' \<noteq> [])"
    if c: "get_prop config ''address'' = Inr a"
  proof -
    from c obtain cid url
      where "get_prop config ''chainId'' = Inr cid" "get_prop config ''rpcUrl'' = Inr url"
      by (cases config) auto
    with c show ?thesis
      by (simp add: setConfig_def sa l priv_emitAccountsChanged_def
          priv_emitNetworkChanged_def emit_def)
  qed
  from 1 2 3 show ?thesis by blast
qed

theorem C2_ready_example:
  "get_prop example_config ''address'' = Inr (JStr ''0xABC'')
   \<and> (\<exists>s'. setAddress fresh (JStr ''0xABC'') = (Inr (), s') \<and> ready s' = (address s' \<noteq> []))
   \<and> (\<exists>s'. constructor example_config = Inr s' \<and> ready s' = (address s' \<noteq> []))
   \<and> (\<exists>s'. setConfig fresh example_config = (Inr (), s') \<and> ready s' = (address s' \<noteq> []))"
  using C2_ready_iff_address_nonempty [of "JStr ''0xABC''" "''0xABC''" fresh example_config]
  by (simp add: example_config_def)

subsection \<open>Reconfiguration keeps the pending calls\<close>

text \<open>
  C3. \<open>setConfig\<close> replaces the chain id, the address and readiness, the RPC server
  and the filter manager (and emits its two events); the pending table, the promises
  and the requests outstanding at the old collaborators stay as they were. So for an
  identifier registered before the reconfiguration, a resolve or reject after it calls
  the continuation registered before: it settles the promise \<open>p\<close> of that entry, with
  the envelope of the identifier or with the error.
\<close>

theorem C3_setConfig_keeps_pending_calls:
  assumes "setConfig s config = (Inr (), s')"
  shows "s' = s\<lparr>chainId := chainId s', address := address s', ready := ready s',
                  priv_rpc := priv_rpc s', priv_filterMgr := priv_filterMgr s',
                  emitted := emitted s'\<rparr>
       \<and> priv_promises s' = priv_promises s \<and> promises_proto s' = promises_proto s
       \<and> settled s' = settled s \<and> requests s' = requests s
       \<and> lookup s' k = lookup s k
       \<and> (lookup s (ToString ident) = Entry p \<longrightarrow>
            (data_result v = Inr r \<longrightarrow>
               (\<exists>t. priv_resolve s' ident v = (Inr (), t)
                  \<and> settled t =
                      settle p
                        (Fulfilled (JObj [(''jsonrpc'', JStr ''2.0''), (''id'', ident), (''result'', r)]))
                        (settled s)))
          \<and> (\<exists>t. priv_reject s' ident e = (Inr (), t)
                  \<and> settled t =
                      settle p (Rejected (if instanceof_Error e then e else new_Error e))
                        (settled s)))"
proof -
  let ?s = "s\<lparr>chainId := chainId s', address := address s', ready := ready s',
                 priv_rpc := priv_rpc s', priv_filterMgr := priv_filterMgr s',
                 emitted := emitted s'\<rparr>"
  have eq: "s' = ?s" by (rule setConfig_frame [OF assms])
  have f: "priv_promises s' = priv_promises s" "promises_proto s' = promises_proto s"
    "settled s' = settled s" "requests s' = requests s"
    by (subst eq, simp)+
  have l: "lookup s' k = lookup s k" for k
    unfolding lookup_def f ..
  from eq show ?thesis
    by (simp add: f l priv_resolve_entry priv_reject_entry)
qed

theorem C3_setConfig_example:
  "setConfig signing example_config = (Inr (), reconfigured)
   \<and> lookup signing (ToString (JNum 7)) = Entry 0
   \<and> data_result (JStr ''0xsig'') = Inr (JStr ''0xsig'')
   \<and> lookup reconfigured ''7'' = Entry 0
   \<and> (\<exists>t. priv_resolve reconfigured (JNum 7) (JStr ''0xsig'') = (Inr (), t)
          \<and> settled t =
              [Fulfilled (JObj [(''jsonrpc'', JStr ''2.0''), (''id'', JNum 7), (''result'', JStr ''0xsig'')])])
   \<and> (\<exists>t. priv_reject reconfigured (JNum 7) (JStr ''denied'') = (Inr (), t)
          \<and> settled t = [Rejected (JError ''denied'')])"
proof -
  have c: "setConfig signing example_config = (Inr (), reconfigured)"
    by code_simp
  have l: "lookup signing (ToString (JNum 7)) = Entry 0" "settled signing = [Pending]"
    "lookup signing ''7'' = Entry 0" "ToString (JNum 7) = ''7''"
    by code_simp+
  have d: "data_result (JStr ''0xsig'') = Inr (JStr ''0xsig'')"
    by (simp add: data_result_def)
  show ?thesis
    using C3_setConfig_keeps_pending_calls
      [OF c, of "''7''" "JNum 7" 0 "JStr ''0xsig''" "JStr ''0xsig''" "JStr ''denied''"]
    unfolding l d by (simp add: c l d settle_def new_Error_def)
qed

subsection \<open>The readiness gate of the bridge\<close>

text \<open>
  C4. For a call routed through the bridge: when the provider is not ready and the
  handler is not \<open>requestAccounts\<close>, \<open>postMessage\<close> rejects the pending identifier
  with the error "provider is not ready", deletes its entry and posts nothing to the
  host; when the provider is ready, or the handler is \<open>requestAccounts\<close>, it posts
  \<open>{name, object, id}\<close> to the host and settles nothing. The last two parts state the
  same for \<open>send\<close> with each of the bridge methods, where the identifier has just been
  registered: the promise returned is rejected at once in the first case, and stays
  pending with its entry in the table in the second.
\<close>

theorem C4_bridge_gate:
  "(\<not> ready s \<and> handler \<noteq> ''requestAccounts'' \<and> lookup s (ToString ident) = Entry p \<longrightarrow>
      postMessage s handler ident data =
        (Inr (), delete_key (s\<lparr>settled := settle p (Rejected (JError ''provider is not ready'')) (settled s)\<rparr>)
                   (ToString ident)))
   \<and> (ready s \<or> handler = ''requestAccounts'' \<longrightarrow>
      postMessage s handler ident data =
        (Inr (), s\<lparr>posted := posted s @
           [(handler, JObj [(''name'', JStr handler), (''object'', data), (''id'', ident)])]\<rparr>))
   \<and> (m \<in> set bridge_methods \<and> \<not> ready s \<and> m \<noteq> ''eth_requestAccounts'' \<longrightarrow>
        (\<exists>s'. send s (JStr m) (JArr ps) id_arg gen = (Inr (RetPromise (length (settled s))), s')
            \<and> settled s' = settled s @ [Rejected (JError ''provider is not ready'')]
            \<and> posted s' = posted s))
   \<and> (m \<in> set bridge_methods \<and> (ready s \<or> m = ''eth_requestAccounts'') \<longrightarrow>
        (\<exists>s' h d.
            send s (JStr m) (JArr ps) id_arg gen = (Inr (RetPromise (length (settled s))), s')
            \<and> settled s' = settled s @ [Pending]
            \<and> posted s' = posted s @
                 [(h, JObj [(''name'', JStr h), (''object'', d),
                            (''id'', if \<not> truthy id_arg then gen else id_arg)])]
            \<and> lookup s' (ToString (if \<not> truthy id_arg then gen else id_arg)) = Entry (length (settled s))))"
  by (intro conjI impI postMessage_not_ready postMessage_delivers send_bridge_not_ready
      send_bridge_delivers; (elim conjE)?; assumption)

theorem C4_bridge_gate_example:
  "\<not> ready asking \<and> lookup asking (ToString (JNum 7)) = Entry 0 \<and> ready fresh
   \<and> ''eth_sign'' \<in> set bridge_methods
   \<and> postMessage asking ''signMessage'' (JNum 7) (JObj []) =
       (Inr (), delete_key (asking\<lparr>settled := [Rejected (JError ''provider is not ready'')]\<rparr>) ''7'')
   \<and> (\<exists>s'. send asking (JStr ''eth_sign'') (JArr []) (JNum 7) (JNum 99) = (Inr (RetPromise 1), s')
            \<and> settled s' = [Pending, Rejected (JError ''provider is not ready'')]
            \<and> posted s' = posted asking)
   \<and> (\<exists>s' h d. send fresh (JStr ''eth_sign'') (JArr []) (JNum 7) (JNum 99) = (Inr (RetPromise 0), s')
            \<and> settled s' = [Pending]
            \<and> posted s' = [(h, JObj [(''name'', JStr h), (''object'', d), (''id'', JNum 7)])]
            \<and> lookup s' ''7'' = Entry 0)"
proof -
  have r: "\<not> ready asking" "ready fresh" "settled fresh = []" "settled asking = [Pending]"
    "posted fresh = []" "lookup asking ''7'' = Entry 0"
    by code_simp+
  have b: "''eth_sign'' \<in> set bridge_methods" by (simp add: bridge_methods_def)
  have k: "number_toString 10 7 = ''7''" by code_simp
  show ?thesis
    using C4_bridge_gate [of asking "''signMessage''" "JNum 7" 0 "JObj []" "''eth_sign''" "[]" "JNum 7" "JNum 99"]
      C4_bridge_gate [of fresh "''signMessage''" "JNum 7" 0 "JObj []" "''eth_sign''" "[]" "JNum 7" "JNum 99"]
    by (simp add: r b k settle_def)
qed

subsection \<open>Validation in send\<close>



subsection \<open>The envelope of a resolved call\<close>

text \<open>
  C6, as stated: for a pending identifier and any raw value \<open>v\<close>, \<open>_resolve\<close> calls the
  success continuation with \<open>{jsonrpc: "2.0", id, result}\<close>, where \<open>result\<close> is
  \<open>v.result\<close> whenever \<open>v\<close> has the nested shape \<open>{result: ...}\<close>. The code unwraps
  only a value that also carries a truthy \<open>jsonrpc\<close> property: with 7 pending,
  \<open>_resolve(7, {result: 5})\<close> fulfils the promise with the result \<open>{result: 5}\<close>, not
  with 5.
\<close>

theorem C6_untagged_result_stays_wrapped:
  "lookup signing (ToString (JNum 7)) = Entry 0
   \<and> settled signing = [Pending]
   \<and> priv_resolve signing (JNum 7) (JObj [(''result'', JNum 5)]) =
       (Inr (), snd (priv_resolve signing (JNum 7) (JObj [(''result'', JNum 5)])))
   \<and> settled (snd (priv_resolve signing (JNum 7) (JObj [(''result'', JNum 5)]))) =
       [Fulfilled (JObj [(''jsonrpc'', JStr ''2.0''), (''id'', JNum 7),
                         (''result'', JObj [(''result'', JNum 5)])])]
   \<and> settled (snd (priv_resolve signing (JNum 7) (JObj [(''result'', JNum 5)]))) \<noteq>
       [Fulfilled (JObj [(''jsonrpc'', JStr ''2.0''), (''id'', JNum 7), (''result'', JNum 5)])]"
  by code_simp

text \<open>
  C6, amended. For an identifier with a pending entry, \<open>_resolve\<close> calls the success
  continuation of that entry with \<open>{jsonrpc: "2.0", id, result}\<close>, where \<open>result\<close> is
  \<open>v.result\<close> when \<open>v\<close> is an object whose \<open>jsonrpc\<close> and \<open>result\<close> properties are both
  truthy, and \<open>result\<close> is \<open>v\<close> itself when \<open>v\<close> is not an object, or its \<open>jsonrpc\<close>
  property is falsy or absent, or \<open>v\<close> is not \<open>null\<close> and has no \<open>result\<close> property.
\<close>

theorem C6_resolve_envelope:
  assumes "lookup s (ToString ident) = Entry p"
  shows "(typeof v = ''object'' \<and> get_prop v ''jsonrpc'' = Inr j \<and> truthy j
            \<and> get_prop v ''result'' = Inr r \<and> truthy r \<longrightarrow>
          (\<exists>t. priv_resolve s ident v = (Inr (), t)
             \<and> settled t =
                 settle p
                   (Fulfilled (JObj [(''jsonrpc'', JStr ''2.0''), (''id'', ident), (''result'', r)]))
                   (settled s)))
       \<and> (typeof v \<noteq> ''object'' \<or> (get_prop v ''jsonrpc'' = Inr j \<and> \<not> truthy j)
            \<or> (v \<noteq> JNull \<and> \<not> has_prop v ''result'') \<longrightarrow>
          (\<exists>t. priv_resolve s ident v = (Inr (), t)
             \<and> settled t =
                 settle p
                   (Fulfilled (JObj [(''jsonrpc'', JStr ''2.0''), (''id'', ident), (''result'', v)]))
                   (settled s)))"
proof (intro conjI impI)
  assume "typeof v = ''object'' \<and> get_prop v ''jsonrpc'' = Inr j \<and> truthy j
            \<and> get_prop v ''result'' = Inr r \<and> truthy r"
  then have "data_result v = Inr r"
    by (simp add: data_result_wrapped)
  with assms show "\<exists>t. priv_resolve s ident v = (Inr (), t)
             \<and> settled t =
                 settle p
                   (Fulfilled (JObj [(''jsonrpc'', JStr ''2.0''), (''id'', ident), (''result'', r)]))
                   (settled s)"
    by (simp add: priv_resolve_entry)
next
  assume a: "typeof v \<noteq> ''object'' \<or> (get_prop v ''jsonrpc'' = Inr j \<and> \<not> truthy j)
            \<or> (v \<noteq> JNull \<and> \<not> has_prop v ''result'')"
  have "data_result v = Inr v"
  proof (cases "v \<noteq> JNull \<and> \<not> has_prop v ''result''")
    case True
    then show ?thesis by (rule data_result_no_result)
  next
    case False
    with a have "typeof v \<noteq> ''object'' \<or> (get_prop v ''jsonrpc'' = Inr j \<and> \<not> truthy j)"
      by simp
    then show ?thesis by (rule data_result_plain)
  qed
  with assms show "\<exists>t. priv_resolve s ident v = (Inr (), t)
             \<and> settled t =
                 settle p
                   (Fulfilled (JObj [(''jsonrpc'', JStr ''2.0''), (''id'', ident), (''result'', v)]))
                   (settled s)"
    by (simp add: priv_resolve_entry)
qed

theorem C6_resolve_envelope_example:
  "lookup signing (ToString (JNum 7)) = Entry 0
   \<and> typeof wrapped_response = ''object''
   \<and> get_prop wrapped_response ''jsonrpc'' = Inr (JStr ''2.0'') \<and> truthy (JStr ''2.0'')
   \<and> get_prop wrapped_response ''result'' = Inr (JStr ''0xsig'') \<and> truthy (JStr ''0xsig'')
   \<and> (\<exists>t. priv_resolve signing (JNum 7) wrapped_response = (Inr (), t)
          \<and> settled t =
              [Fulfilled (JObj [(''jsonrpc'', JStr ''2.0''), (''id'', JNum 7), (''result'', JStr ''0xsig'')])])
   \<and> typeof (JStr ''0xsig'') \<noteq> ''object''
   \<and> (\<exists>t. priv_resolve signing (JNum 7) (JStr ''0xsig'') = (Inr (), t)
          \<and> settled t =
              [Fulfilled (JObj [(''jsonrpc'', JStr ''2.0''), (''id'', JNum 7), (''result'', JStr ''0xsig'')])])
   \<and> error_response \<noteq> JNull \<and> \<not> has_prop error_response ''result''
   \<and> (\<exists>t. priv_resolve signing (JNum 7) error_response = (Inr (), t)
          \<and> settled t =
              [Fulfilled (JObj [(''jsonrpc'', JStr ''2.0''), (''id'', JNum 7), (''result'', error_response)])])"
proof -
  have l: "lookup signing (ToString (JNum 7)) = Entry 0" "settled signing = [Pending]"
    "number_toString 10 7 = ''7''" "lookup signing ''7'' = Entry 0"
    by code_simp+
  have w: "typeof wrapped_response = ''object''"
    "get_prop wrapped_response ''jsonrpc'' = Inr (JStr ''2.0'')"
    "get_prop wrapped_response ''result'' = Inr (JStr ''0xsig'')"
    by (simp_all add: wrapped_response_def)
  have e: "error_response \<noteq> JNull" "\<not> has_prop error_response ''result''"
    by (simp_all add: error_response_def)
  have 1: "\<exists>t. priv_resolve signing (JNum 7) wrapped_response = (Inr (), t)
          \<and> settled t =
              [Fulfilled (JObj [(''jsonrpc'', JStr ''2.0''), (''id'', JNum 7), (''result'', JStr ''0xsig'')])]"
    using C6_resolve_envelope [OF l(1), of wrapped_response "JStr ''2.0''" "JStr ''0xsig''",
        THEN conjunct1]
    by (simp add: w l settle_def)
  have 2: "\<exists>t. priv_resolve signing (JNum 7) (JStr ''0xsig'') = (Inr (), t)
          \<and> settled t =
              [Fulfilled (JObj [(''jsonrpc'', JStr ''2.0''), (''id'', JNum 7), (''result'', JStr ''0xsig'')])]"
    using C6_resolve_envelope [OF l(1), of "JStr ''0xsig''" JUndefined JUndefined, THEN conjunct2]
    by (simp add: l settle_def)
  have 3: "\<exists>t. priv_resolve signing (JNum 7) error_response = (Inr (), t)
          \<and> settled t =
              [Fulfilled (JObj [(''jsonrpc'', JStr ''2.0''), (''id'', JNum 7), (''result'', error_response)])]"
    using C6_resolve_envelope [OF l(1), of error_response JUndefined JUndefined, THEN conjunct2] e
    by (simp add: l settle_def)
  from 1 2 3 w e l(1) show ?thesis by simp
qed

text \<open>
  Besides calling the continuation, \<open>_resolve\<close> deletes the own property of the
  identifier, so the table holds no entry under its key afterwards. The key
  \<open>__proto__\<close> is the exception: an entry stored under it is the prototype of the table,
  which \<open>delete\<close> does not touch.
\<close>

lemma priv_resolve_deletes_entry:
  assumes "lookup s (ToString ident) = Entry p" "data_result v = Inr r"
    and "ToString ident \<noteq> ''__proto__''"
  shows "lookup (snd (priv_resolve s ident v)) (ToString ident) \<noteq> Entry q"
  using assms
  by (auto simp: priv_resolve_entry lookup_def delete_key_def delete_conv' split: option.splits)

subsection \<open>Registering an identifier twice\<close>

text \<open>
  C7, as stated: a second registration under an identifier that is already in the
  pending table fails and does not overwrite the first. The code has no such check. With
  7 pending for the promise 0, a second \<open>send("eth_sign", ..., 7)\<close> returns the new
  promise 1 and the table then holds promise 1 under 7; a later \<open>_resolve(7, ...)\<close>
  fulfils promise 1 and promise 0 stays pending.
\<close>

theorem C7_second_send_overwrites:
  "lookup signing (ToString (JNum 7)) = Entry 0
   \<and> send signing (JStr ''eth_sign'') (JArr [JStr ''0xabc'', JStr ''other'']) (JNum 7) (JNum 99) =
       (Inr (RetPromise 1), signing_twice)
   \<and> lookup signing_twice (ToString (JNum 7)) = Entry 1
   \<and> settled signing_twice = [Pending, Pending]
   \<and> settled (snd (priv_resolve signing_twice (JNum 7) (JStr ''0xsig''))) =
       [Pending,
        Fulfilled (JObj [(''jsonrpc'', JStr ''2.0''), (''id'', JNum 7), (''result'', JStr ''0xsig'')])]"
  by code_simp

text \<open>
  C7, amended. When \<open>send\<close> is given a truthy identifier that is already in the pending
  table, with a valid method and params, the registration does not fail and replaces the
  first entry: \<open>send\<close> returns no validation error, afterwards the table no longer holds
  the first promise under the identifier, and the first promise has not been settled. When
  the call stays pending (a method for the remote node, or a bridge method that is
  delivered), the table holds the second promise under the identifier.
\<close>

theorem C7_second_registration_replaces_first:
  assumes "lookup s (ToString ident) = Entry p1" "p1 < length (settled s)" "truthy ident" "m \<noteq> []"
  shows "(\<exists>r s'. send s (JStr m) (JArr ps) ident gen = (r, s')
            \<and> (\<forall>e. r \<noteq> Inr (RetError e))
            \<and> lookup s' (ToString ident) \<noteq> Entry p1
            \<and> settled s' ! p1 = settled s ! p1)
       \<and> (m \<notin> set switch_cases \<or> (m \<in> set bridge_methods \<and> (ready s \<or> m = ''eth_requestAccounts'')) \<longrightarrow>
            (\<exists>s'. send s (JStr m) (JArr ps) ident gen = (Inr (RetPromise (length (settled s))), s')
               \<and> lookup s' (ToString ident) = Entry (length (settled s))
               \<and> settled s' = settled s @ [Pending]))"
proof (intro conjI impI)
  define pl where "pl = \<lparr>pl_jsonrpc = JStr ''2.0'', pl_id = ident, pl_method = JStr m, pl_params = JArr ps\<rparr>"
  define s1 where "s1 = assign (s\<lparr>settled := settled s @ [Pending]\<rparr>) (ToString ident) (length (settled s))"
  have ne: "p1 \<noteq> length (settled s)" using assms(2) by simp
  have "lookup s1 (ToString (pl_id pl)) = Entry (length (settled s))"
    by (simp add: s1_def pl_def lookup_assign)
  from dispatch_leaves [OF this ne]
  have l: "lookup (snd (dispatch s1 pl)) (ToString ident) \<noteq> Entry p1"
    and k: "settled (snd (dispatch s1 pl)) ! p1 = settled s ! p1"
    using assms(2) by (simp_all add: leaves_def pl_def s1_def nth_append)
  have s: "send s (JStr m) (JArr ps) ident gen =
      (case dispatch s1 pl of (Inl e, s2) \<Rightarrow> (Inl e, s2)
       | (Inr u, s2) \<Rightarrow> (Inr (RetPromise (length (settled s))), s2))"
    using assms(3) by (simp add: send_valid [OF assms(4)] Let_def pl_def s1_def)
  obtain r s2 where d: "dispatch s1 pl = (r, s2)" by (cases "dispatch s1 pl")
  show "\<exists>r s'. send s (JStr m) (JArr ps) ident gen = (r, s')
            \<and> (\<forall>e. r \<noteq> Inr (RetError e))
            \<and> lookup s' (ToString ident) \<noteq> Entry p1
            \<and> settled s' ! p1 = settled s ! p1"
    using l k by (cases r) (simp_all add: s d)
next
  assume "m \<notin> set switch_cases \<or> (m \<in> set bridge_methods \<and> (ready s \<or> m = ''eth_requestAccounts''))"
  then show "\<exists>s'. send s (JStr m) (JArr ps) ident gen = (Inr (RetPromise (length (settled s))), s')
               \<and> lookup s' (ToString ident) = Entry (length (settled s))
               \<and> settled s' = settled s @ [Pending]"
  proof
    assume "m \<notin> set switch_cases"
    from send_remote [OF this assms(4), of s ps ident gen] assms(3)
    show ?thesis by auto
  next
    assume "m \<in> set bridge_methods \<and> (ready s \<or> m = ''eth_requestAccounts'')"
    then have "m \<in> set bridge_methods" "ready s \<or> m = ''eth_requestAccounts''" by simp_all
    from send_bridge_delivers [OF this, of ps ident gen] assms(3)
    show ?thesis by auto
  qed
qed


theorem C7_second_registration_example:
  "lookup signing (ToString (JNum 7)) = Entry 0 \<and> 0 < length (settled signing) \<and> truthy (JNum 7)
   \<and> ''eth_sign'' \<in> set bridge_methods \<and> ready signing
   \<and> (\<exists>s'. send signing (JStr ''eth_sign'') (JArr []) (JNum 7) (JNum 99) = (Inr (RetPromise 1), s')
          \<and> lookup s' ''7'' = Entry 1 \<and> settled s' = [Pending, Pending])"
proof -
  have l: "lookup signing ''7'' = Entry 0" "settled signing = [Pending]" "ready signing"
    "number_toString 10 7 = ''7''"
    by code_simp+
  have b: "''eth_sign'' \<in> set bridge_methods" by (simp add: bridge_methods_def)
  show ?thesis
    using C7_second_registration_replaces_first [of signing "JNum 7" 0 "''eth_sign''" "[]" "JNum 99"]
    by (simp add: l b)
qed

subsection \<open>The network version\<close>

text \<open>
  C8, as stated: the \<open>net_version\<close> query resolves with the decimal string of the
  chain id, and with \<open>null\<close> whenever the chain id is falsy (0, \<open>null\<close>, \<open>undefined\<close>).
  The code converts first and tests afterwards, \<open>this.chainId.toString(10) || null\<close>.
  With the chain id 0 the query resolves with the string "0", which is truthy, not with
  \<open>null\<close>. With an undefined chain id the conversion throws a TypeError out of \<open>send\<close>,
  and the promise just registered stays pending.
\<close>

theorem C8_chain_zero_is_not_null:
  "chainId not_ready = JNum 0
   \<and> net_version not_ready = Inr (JStr ''0'')
   \<and> fst (send not_ready (JStr ''net_version'') (JArr []) (JNum 1) (JNum 99)) = Inr (RetPromise 0)
   \<and> settled (snd (send not_ready (JStr ''net_version'') (JArr []) (JNum 1) (JNum 99))) =
       [Fulfilled (JObj [(''jsonrpc'', JStr ''2.0''), (''id'', JNum 1), (''result'', JStr ''0'')])]
   \<and> settled (snd (send not_ready (JStr ''net_version'') (JArr []) (JNum 1) (JNum 99))) \<noteq>
       [Fulfilled (JObj [(''jsonrpc'', JStr ''2.0''), (''id'', JNum 1), (''result'', JNull)])]
   \<and> chainId no_chain = JUndefined
   \<and> fst (send no_chain (JStr ''net_version'') (JArr []) (JNum 1) (JNum 99)) =
       Inl (TypeError ''Cannot read properties of undefined, reading toString'')
   \<and> settled (snd (send no_chain (JStr ''net_version'') (JArr []) (JNum 1) (JNum 99))) = [Pending]"
  by code_simp

text \<open>
  C8, amended. For every chain id that is a safe integer (below \<open>2 ^ 53\<close> in
  magnitude), 0 included, the \<open>net_version\<close> query resolves with the decimal string
  of the chain id: \<open>send\<close> returns a promise that is fulfilled with the envelope whose
  result is that string, and reading the string back as a decimal numeral gives the
  chain id.
\<close>

theorem C8_net_version_decimal:
  assumes "chainId s = JNum n" and "safe_integer n"
  shows "net_version s = Inr (JStr (number_toString 10 n))
       \<and> decimal_int (number_toString 10 n) = n
       \<and> (\<exists>s'. send s (JStr ''net_version'') (JArr ps) id_arg gen =
                  (Inr (RetPromise (length (settled s))), s')
              \<and> settled s' = settled s @
                   [Fulfilled (JObj [(''jsonrpc'', JStr ''2.0''),
                                     (''id'', if \<not> truthy id_arg then gen else id_arg),
                                     (''result'', JStr (number_toString 10 n))])])"
proof -
  define ident where "ident = (if \<not> truthy id_arg then gen else id_arg)"
  define s1 where "s1 = assign (s\<lparr>settled := settled s @ [Pending]\<rparr>) (ToString ident) (length (settled s))"
  have "chainId s1 = JNum n" using assms(1) by (simp add: s1_def)
  then have nv: "net_version s1 = Inr (JStr (number_toString 10 n))"
    by (rule net_version_number)
  from resolve_registered [OF data_result_string, of s ident "number_toString 10 n"]
  obtain s' where r: "priv_resolve s1 ident (JStr (number_toString 10 n)) = (Inr (), s')"
    and st: "settled s' = settled s @ [Fulfilled (JObj [(''jsonrpc'', JStr ''2.0''), (''id'', ident),
               (''result'', JStr (number_toString 10 n))])]"
    unfolding s1_def by blast
  have "send s (JStr ''net_version'') (JArr ps) id_arg gen = (Inr (RetPromise (length (settled s))), s')"
    by (simp add: send_valid Let_def ident_def [symmetric] s1_def [symmetric] dispatch_def nv r)
  with st show ?thesis
    unfolding ident_def [symmetric]
    by (simp add: net_version_number [OF assms(1)] decimal_int_number_toString)
qed

theorem C8_net_version_example:
  "chainId fresh = JNum 1 \<and> safe_integer 1
   \<and> net_version fresh = Inr (JStr ''1'')
   \<and> (\<exists>s'. send fresh (JStr ''net_version'') (JArr []) (JNum 5) (JNum 99) = (Inr (RetPromise 0), s')
          \<and> settled s' =
              [Fulfilled (JObj [(''jsonrpc'', JStr ''2.0''), (''id'', JNum 5), (''result'', JStr ''1'')])])"
proof -
  have l: "chainId fresh = JNum 1" "settled fresh = []" "number_toString 10 1 = ''1''"
    by code_simp+
  have b: "safe_integer 1" by (simp add: safe_integer_def)
  show ?thesis
    using C8_net_version_decimal [OF l(1) b, of "[]" "JNum 5" "JNum 99"] by (simp add: l b)
qed

subsection \<open>The callback adapter\<close>

text \<open>
  The branch for a single payload: when \<open>send\<close> returns a promise, the two handlers
  are attached to it, and what they pass to the callback is \<open>(null, data)\<close> after a
  success and an \<open>Error\<close> with \<open>null\<close> after a rejection.
\<close>

lemma sendAsync_single_attaches:
  "\<not> instanceof_Array pay \<Longrightarrow> send_payload s pay gen = (Inr (RetPromise p), s1) \<Longrightarrow>
   sendAsync s pay callback gen = (Inr (), s1\<lparr>attached := attached s1 @ [(p, callback)]\<rparr>)"
  by (simp add: sendAsync_def)

lemma callback_args_settled:
  "callback_args (Fulfilled data) = Some (JNull, data)"
  "\<exists>err. callback_args (Rejected e) = Some (err, JNull) \<and> instanceof_Error err"
  by (simp_all add: new_Error_def)

text \<open>
  C9. The claim: for a batch payload and for a single payload, \<open>sendAsync\<close> hands the
  outcome of \<open>send\<close> to the callback, \<open>(null, data)\<close> on success and an error value
  otherwise. For a batch the code never reaches the callback. Whatever the array holds,
  \<open>payload.method\<close> is \<open>undefined\<close> on an array, so the call of \<open>send\<close> returns its
  validation error, and \<open>payload.map\<close> throws a TypeError on that argument. The
  exception leaves \<open>sendAsync\<close>; nothing is sent, no promise is created and no handler
  is attached.
\<close>

theorem C9_batch_throws:
  "sendAsync s (JArr reqs) callback gen =
     (Inl (TypeError ''the argument of map is not a function''), s)"
  by (simp add: sendAsync_def send_payload_def send_def)

theorem C9_batch_example:
  "sendAsync fresh
     (JArr [JObj [(''method'', JStr ''eth_accounts''), (''params'', JArr []), (''id'', JNum 1)]])
     0 (JNum 99) =
   (Inl (TypeError ''the argument of map is not a function''), fresh)"
  using C9_batch_throws [of fresh _ 0 "JNum 99"] by simp

subsection \<open>A falsy identifier\<close>

text \<open>
  C10. A call of \<open>send\<close> with a valid method and params and a falsy identifier (0, the
  empty string, \<open>null\<close>, \<open>false\<close> or \<open>undefined\<close>) behaves as the call without an
  identifier: the identifier \<open>gen\<close> obtained from \<open>Utils.genId\<close> takes its place. The
  envelope of a query answered locally carries \<open>gen\<close>; a call that stays pending is
  registered under \<open>gen\<close>, and \<open>gen\<close> is the identifier in the message posted to the host
  or in the payload handed to the remote node.
\<close>

theorem C10_falsy_id_is_replaced:
  assumes "\<not> truthy id_arg" "m \<noteq> []"
  shows "send s (JStr m) (JArr ps) id_arg gen = send s (JStr m) (JArr ps) JUndefined gen
       \<and> (m = ''eth_accounts'' \<and> v = eth_accounts s \<or> m = ''eth_coinbase'' \<and> v = eth_coinbase s \<longrightarrow>
            (\<exists>s'. send s (JStr m) (JArr ps) id_arg gen = (Inr (RetPromise (length (settled s))), s')
               \<and> settled s' = settled s @
                    [Fulfilled (JObj [(''jsonrpc'', JStr ''2.0''), (''id'', gen), (''result'', v)])]))
       \<and> (m \<in> set bridge_methods \<and> (ready s \<or> m = ''eth_requestAccounts'') \<longrightarrow>
            (\<exists>s' h d. send s (JStr m) (JArr ps) id_arg gen = (Inr (RetPromise (length (settled s))), s')
               \<and> settled s' = settled s @ [Pending]
               \<and> posted s' = posted s @ [(h, JObj [(''name'', JStr h), (''object'', d), (''id'', gen)])]
               \<and> lookup s' (ToString gen) = Entry (length (settled s))))
       \<and> (m \<notin> set switch_cases \<longrightarrow>
            (\<exists>s'. send s (JStr m) (JArr ps) id_arg gen = (Inr (RetPromise (length (settled s))), s')
               \<and> settled s' = settled s @ [Pending]
               \<and> lookup s' (ToString gen) = Entry (length (settled s))
               \<and> requests s' = requests s @
                    [(RpcCall (priv_rpc s)
                        (JObj [(''jsonrpc'', JStr ''2.0''), (''id'', gen),
                               (''method'', JStr m), (''params'', JArr ps)]), gen)]))"
proof (intro conjI impI)
  show "send s (JStr m) (JArr ps) id_arg gen = send s (JStr m) (JArr ps) JUndefined gen"
    using assms(1) by (rule send_falsy_id)
next
  assume "m = ''eth_accounts'' \<and> v = eth_accounts s \<or> m = ''eth_coinbase'' \<and> v = eth_coinbase s"
  from send_local [OF this, of ps id_arg gen] assms(1)
  show "\<exists>s'. send s (JStr m) (JArr ps) id_arg gen = (Inr (RetPromise (length (settled s))), s')
               \<and> settled s' = settled s @
                    [Fulfilled (JObj [(''jsonrpc'', JStr ''2.0''), (''id'', gen), (''result'', v)])]"
    by simp
next
  assume "m \<in> set bridge_methods \<and> (ready s \<or> m = ''eth_requestAccounts'')"
  then have "m \<in> set bridge_methods" "ready s \<or> m = ''eth_requestAccounts''" by simp_all
  from send_bridge_delivers [OF this, of ps id_arg gen] assms(1)
  show "\<exists>s' h d. send s (JStr m) (JArr ps) id_arg gen = (Inr (RetPromise (length (settled s))), s')
               \<and> settled s' = settled s @ [Pending]
               \<and> posted s' = posted s @ [(h, JObj [(''name'', JStr h), (''object'', d), (''id'', gen)])]
               \<and> lookup s' (ToString gen) = Entry (length (settled s))"
    by simp
next
  assume "m \<notin> set switch_cases"
  from send_remote [OF this assms(2), of s ps id_arg gen] assms(1)
  show "\<exists>s'. send s (JStr m) (JArr ps) id_arg gen = (Inr (RetPromise (length (settled s))), s')
               \<and> settled s' = settled s @ [Pending]
               \<and> lookup s' (ToString gen) = Entry (length (settled s))
               \<and> requests s' = requests s @
                    [(RpcCall (priv_rpc s)
                        (JObj [(''jsonrpc'', JStr ''2.0''), (''id'', gen),
                               (''method'', JStr m), (''params'', JArr ps)]), gen)]"
    by simp
qed

theorem C10_falsy_id_example:
  "\<not> truthy (JNum 0) \<and> \<not> truthy (JStr []) \<and> \<not> truthy JNull
   \<and> eth_coinbase fresh = JStr ''0xabc''
   \<and> (\<exists>s'. send fresh (JStr ''eth_coinbase'') (JArr []) (JNum 0) (JNum 99) = (Inr (RetPromise 0), s')
          \<and> settled s' =
              [Fulfilled (JObj [(''jsonrpc'', JStr ''2.0''), (''id'', JNum 99), (''result'', JStr ''0xabc'')])])
   \<and> ''eth_getBalance'' \<notin> set switch_cases
   \<and> (\<exists>s'. send fresh (JStr ''eth_getBalance'') (JArr []) (JStr []) (JNum 99) = (Inr (RetPromise 0), s')
          \<and> settled s' = [Pending] \<and> lookup s' ''99'' = Entry 0
          \<and> requests s' =
              [(RpcCall (RPCServer (JStr ''https://node''))
                  (JObj [(''jsonrpc'', JStr ''2.0''), (''id'', JNum 99),
                         (''method'', JStr ''eth_getBalance''), (''params'', JArr [])]), JNum 99)])"
proof -
  have l: "eth_coinbase fresh = JStr ''0xabc''" "settled fresh = []" "number_toString 10 99 = ''99''"
    "requests fresh = []" "priv_rpc fresh = RPCServer (JStr ''https://node'')"
    by code_simp+
  have n: "''eth_getBalance'' \<notin> set switch_cases" by (simp add: switch_cases_def)
  have a: "\<exists>s'. send fresh (JStr ''eth_coinbase'') (JArr []) (JNum 0) (JNum 99) = (Inr (RetPromise 0), s')
          \<and> settled s' =
              [Fulfilled (JObj [(''jsonrpc'', JStr ''2.0''), (''id'', JNum 99), (''result'', JStr ''0xabc'')])]"
    using C10_falsy_id_is_replaced [of "JNum 0" "''eth_coinbase''" fresh "[]" "JNum 99" "JStr ''0xabc''",
        THEN conjunct2, THEN conjunct1]
    by (simp add: l)
  have b: "\<exists>s'. send fresh (JStr ''eth_getBalance'') (JArr []) (JStr []) (JNum 99) = (Inr (RetPromise 0), s')
          \<and> settled s' = [Pending] \<and> lookup s' ''99'' = Entry 0
          \<and> requests s' =
              [(RpcCall (RPCServer (JStr ''https://node''))
                  (JObj [(''jsonrpc'', JStr ''2.0''), (''id'', JNum 99),
                         (''method'', JStr ''eth_getBalance''), (''params'', JArr [])]), JNum 99)]"
    using C10_falsy_id_is_replaced [of "JStr []" "''eth_getBalance''" fresh "[]" "JNum 99" JNull,
        THEN conjunct2, THEN conjunct2, THEN conjunct2] n
    by (simp add: l)
  from a b n l(1) show ?thesis by simp
qed

end
